theory Spec2Isabelle
  imports Complex_Main "HOL-Library.AList"
begin

section \<open>Python values, dictionaries and exceptions\<close>

text \<open>
  The scripts work on GeoJSON documents loaded with \<^verbatim>\<open>json.load\<close>: nested Python values.
  A dictionary is an association list in insertion order (the order Python keeps), a
  feature is such a dictionary. Floating-point numbers are idealised as reals: rounding,
  overflow and NaN are outside this model.
\<close>

datatype pyval =
    PNone
  | PBool bool
  | PInt int
  | PFloat real
  | PStr string
  | PList "pyval list"
  | PDict "(string \<times> pyval) list"

type_synonym pydict = "(string \<times> pyval) list"

type_synonym feature = pydict

datatype py_error = KeyError | AttributeError | IndexError

text \<open>\<^verbatim>\<open>d.get(k)\<close>: the value, or \<^verbatim>\<open>None\<close> for a missing key.\<close>

definition dict_get :: "pydict \<Rightarrow> string \<Rightarrow> pyval" where
  "dict_get d k = (case map_of d k of None \<Rightarrow> PNone | Some v \<Rightarrow> v)"

text \<open>\<^verbatim>\<open>d[k] = v\<close>: an existing key keeps its position, a new key goes last.\<close>

definition dict_set :: "string \<Rightarrow> pyval \<Rightarrow> pydict \<Rightarrow> pydict" where
  "dict_set k v d = AList.update k v d"

text \<open>Python truth value of a loaded JSON value.\<close>

fun truthy :: "pyval \<Rightarrow> bool" where
  "truthy PNone = False"
| "truthy (PBool b) = b"
| "truthy (PInt i) = (i \<noteq> 0)"
| "truthy (PFloat r) = (r \<noteq> 0)"
| "truthy (PStr s) = (s \<noteq> [])"
| "truthy (PList xs) = (xs \<noteq> [])"
| "truthy (PDict d) = (d \<noteq> [])"

text \<open>\<^verbatim>\<open>a or b\<close>.\<close>

definition py_or :: "pyval \<Rightarrow> pyval \<Rightarrow> pyval" where
  "py_or a b = (if truthy a then a else b)"

text \<open>
  \<^verbatim>\<open>float(val)\<close>; \<open>None\<close> stands for the \<^verbatim>\<open>ValueError\<close> or \<^verbatim>\<open>TypeError\<close> that the caller
  catches. The conversion of a string is Python's own parser, taken as the parameter \<open>sf\<close>.
\<close>

fun py_float :: "(string \<Rightarrow> real option) \<Rightarrow> pyval \<Rightarrow> real option" where
  "py_float sf PNone = None"
| "py_float sf (PBool b) = Some (if b then 1 else 0)"
| "py_float sf (PInt i) = Some (of_int i)"
| "py_float sf (PFloat r) = Some r"
| "py_float sf (PStr s) = sf s"
| "py_float sf (PList xs) = None"
| "py_float sf (PDict d) = None"

section \<open>Owner key\<close>

text \<open>
  \<^verbatim>\<open>str.strip()\<close> and \<^verbatim>\<open>str.upper()\<close> on the ASCII range: the white space characters are
  code points 9 to 13, 28 to 31 and 32; the letters a to z are mapped to A to Z.
\<close>

definition is_space :: "char \<Rightarrow> bool" where
  "is_space c = (let n = (of_char c :: nat) in (9 \<le> n \<and> n \<le> 13) \<or> (28 \<le> n \<and> n \<le> 32))"

definition py_strip :: "string \<Rightarrow> string" where
  "py_strip s = rev (dropWhile is_space (rev (dropWhile is_space s)))"

definition upper_char :: "char \<Rightarrow> char" where
  "upper_char c = (let n = (of_char c :: nat) in if 97 \<le> n \<and> n \<le> 122 then char_of (n - 32) else c)"

definition py_upper :: "string \<Rightarrow> string" where
  "py_upper s = map upper_char s"

text \<open>
  \<^verbatim>\<open>(properties.get(lower) or properties.get(upper) or '').strip().upper()\<close>: the method
  call raises \<^verbatim>\<open>AttributeError\<close> when the selected value is not a string.
\<close>

definition norm_field :: "pydict \<Rightarrow> string \<Rightarrow> string \<Rightarrow> py_error + string" where
  "norm_field props lo up =
     (case py_or (dict_get props lo) (py_or (dict_get props up) (PStr [])) of
        PStr s \<Rightarrow> Inr (py_upper (py_strip s))
      | _ \<Rightarrow> Inl AttributeError)"

text \<open>
  \<^verbatim>\<open>get_owner_key(properties)\<close>. Both fields are normalised before the owner is tested;
  \<open>Inr None\<close> is the returned \<^verbatim>\<open>None\<close>. A \<^verbatim>\<open>properties\<close> value that is not a dictionary
  has no \<^verbatim>\<open>get\<close>.
\<close>

definition get_owner_key :: "pyval \<Rightarrow> py_error + string option" where
  "get_owner_key properties =
     (case properties of
        PDict props \<Rightarrow>
          (case norm_field props ''ownername'' ''OWNERNAME'' of
             Inl e \<Rightarrow> Inl e
           | Inr owner \<Rightarrow>
              (case norm_field props ''citystatez'' ''CITYSTATEZ'' of
                 Inl e \<Rightarrow> Inl e
               | Inr address \<Rightarrow>
                   if owner = [] then Inr None
                   else Inr (Some (owner @ ''|'' @ address))))
      | _ \<Rightarrow> Inl AttributeError)"

section \<open>The geometry engine\<close>

text \<open>
  The Shapely operations the merge uses are parameters: \<open>'g\<close> is the engine's geometry
  type; an operation that raises returns \<open>None\<close>.
\<close>

record 'g engine =
  shape :: "pyval \<Rightarrow> 'g option"
  is_valid :: "'g \<Rightarrow> bool"
  make_valid :: "'g \<Rightarrow> 'g option"
  touches :: "'g \<Rightarrow> 'g \<Rightarrow> bool option"
  intersects :: "'g \<Rightarrow> 'g \<Rightarrow> bool option"
  unary_union :: "'g list \<Rightarrow> 'g option"
  mapping :: "'g \<Rightarrow> pyval"

text \<open>
  The body of both \<^verbatim>\<open>try\<close> blocks that convert a feature's geometry:
  \<^verbatim>\<open>geom = shape(f['geometry'])\<close>, repaired with \<^verbatim>\<open>make_valid\<close> when it is not valid.
  \<open>None\<close> is any exception inside the block (a missing \<^verbatim>\<open>geometry\<close> key included).
\<close>

definition repair :: "'g engine \<Rightarrow> 'g \<Rightarrow> 'g option" where
  "repair E geom = (if \<not> is_valid E geom then make_valid E geom else Some geom)"

definition parse_geom :: "'g engine \<Rightarrow> feature \<Rightarrow> 'g option" where
  "parse_geom E f =
     (case map_of f ''geometry'' of
        None \<Rightarrow> None
      | Some j \<Rightarrow> (case shape E j of None \<Rightarrow> None | Some geom \<Rightarrow> repair E geom))"

section \<open>Merging one component: \<^verbatim>\<open>merge_features\<close>\<close>

text \<open>\<^verbatim>\<open>f['properties']\<close> used as a dictionary.\<close>

definition get_props :: "feature \<Rightarrow> py_error + pydict" where
  "get_props f =
     (case map_of f ''properties'' of
        None \<Rightarrow> Inl KeyError
      | Some (PDict d) \<Rightarrow> Inr d
      | Some _ \<Rightarrow> Inl AttributeError)"

fun all_props :: "feature list \<Rightarrow> py_error + pydict list" where
  "all_props [] = Inr []"
| "all_props (f # fs) =
     (case get_props f of
        Inl e \<Rightarrow> Inl e
      | Inr d \<Rightarrow> (case all_props fs of Inl e \<Rightarrow> Inl e | Inr ds \<Rightarrow> Inr (d # ds)))"

definition numeric_fields :: "string list" where
  "numeric_fields = [''gisacres'', ''GISACRES'', ''totalvalue'', ''TOTALVALUE'',
                     ''landvalue'', ''LANDVALUE'', ''improvvalue'', ''IMPROVVALUE'']"

text \<open>One round of the inner loop: \<^verbatim>\<open>val = f['properties'].get(field)\<close> and the guarded sum.\<close>

definition add_value :: "(string \<Rightarrow> real option) \<Rightarrow> string \<Rightarrow> pydict \<Rightarrow> real \<Rightarrow> real" where
  "add_value sf field props acc =
     (let val = dict_get props field in
      if val \<noteq> PNone then
        (case py_float sf val of Some x \<Rightarrow> acc + x | None \<Rightarrow> acc)
      else acc)"

definition field_total :: "(string \<Rightarrow> real option) \<Rightarrow> string \<Rightarrow> pydict list \<Rightarrow> real" where
  "field_total sf field ps = fold (add_value sf field) ps 0"

text \<open>One round of the loop over \<^verbatim>\<open>numeric_fields\<close>.\<close>

definition sum_field :: "(string \<Rightarrow> real option) \<Rightarrow> pydict list \<Rightarrow> string \<Rightarrow> pydict \<Rightarrow> pydict" where
  "sum_field sf ps field base_props =
     (let tot = field_total sf field ps in
      if tot > 0 then dict_set field (PFloat tot) base_props else base_props)"

text \<open>
  The properties of the merged feature, from the property dictionaries of the members:
  a copy of the first one, the sums, then the two metadata fields.
\<close>

definition aggregate_props :: "(string \<Rightarrow> real option) \<Rightarrow> pydict list \<Rightarrow> pydict" where
  "aggregate_props sf ps =
     (let base_props = (case ps of [] \<Rightarrow> [] | p # _ \<Rightarrow> p);
          base_props = fold (sum_field sf ps) numeric_fields base_props;
          base_props = dict_set ''_merged_count'' (PInt (int (length ps))) base_props;
          base_props = dict_set ''_merged_parcels''
             (PList (map (\<lambda>p. py_or (dict_get p ''parcelid'') (dict_get p ''PARCELID'')) ps))
             base_props
      in base_props)"

text \<open>The geometries that convert, in order (a failing feature is skipped).\<close>

definition parsed_geoms :: "'g engine \<Rightarrow> feature list \<Rightarrow> 'g list" where
  "parsed_geoms E features = List.map_filter (parse_geom E) features"

definition merge_features ::
  "'g engine \<Rightarrow> (string \<Rightarrow> real option) \<Rightarrow> feature list \<Rightarrow> py_error + feature" where
  "merge_features E sf features =
     (case features of
        [] \<Rightarrow> Inl IndexError
      | [f] \<Rightarrow> Inr f
      | f0 # _ \<Rightarrow>
         (case parsed_geoms E features of
            [] \<Rightarrow> Inr f0
          | g0 # gs \<Rightarrow>
             (let merged_geom = (case unary_union E (g0 # gs) of Some u \<Rightarrow> u | None \<Rightarrow> g0) in
              case all_props features of
                Inl e \<Rightarrow> Inl e
              | Inr ps \<Rightarrow>
                  Inr [(''type'', PStr ''Feature''),
                       (''geometry'', mapping E merged_geom),
                       (''properties'', PDict (aggregate_props sf ps))])))"

section \<open>Adjacency and connected components: \<^verbatim>\<open>find_adjacent_groups\<close>\<close>

text \<open>
  \<^verbatim>\<open>adjacent = defaultdict(set)\<close>: a finite dictionary from an index to its set of
  neighbours, a set being a list without repetition. Reading a missing key gives the
  empty set.
\<close>

type_synonym adjacency = "(nat \<times> nat list) list"

definition neighbours :: "adjacency \<Rightarrow> nat \<Rightarrow> nat list" where
  "neighbours adj i = (case map_of adj i of None \<Rightarrow> [] | Some s \<Rightarrow> s)"

definition set_add :: "nat \<Rightarrow> nat list \<Rightarrow> nat list" where
  "set_add j s = (if j \<in> set s then s else s @ [j])"

text \<open>\<^verbatim>\<open>adjacent[i].add(j)\<close>.\<close>

definition adj_add :: "nat \<Rightarrow> nat \<Rightarrow> adjacency \<Rightarrow> adjacency" where
  "adj_add i j adj = AList.update i (set_add j (neighbours adj i)) adj"

text \<open>
  The guarded test \<^verbatim>\<open>a.touches(b) or a.intersects(b)\<close>: \<^verbatim>\<open>or\<close> calls \<^verbatim>\<open>intersects\<close>
  only when \<^verbatim>\<open>touches\<close> returned false; \<open>None\<close> is an exception of either call.
\<close>

definition adj_test :: "'g engine \<Rightarrow> 'g \<Rightarrow> 'g \<Rightarrow> bool option" where
  "adj_test E a b =
     (case touches E a b of
        None \<Rightarrow> None
      | Some True \<Rightarrow> Some True
      | Some False \<Rightarrow> intersects E a b)"

text \<open>The body of the inner loop; an exception is caught and the loop continues.\<close>

definition edge_step :: "'g engine \<Rightarrow> 'g list \<Rightarrow> nat \<Rightarrow> nat \<Rightarrow> adjacency \<Rightarrow> adjacency" where
  "edge_step E geometries i j adj =
     (case adj_test E (geometries ! i) (geometries ! j) of
        Some True \<Rightarrow> adj_add j i (adj_add i j adj)
      | _ \<Rightarrow> adj)"

definition build_adjacency :: "'g engine \<Rightarrow> 'g list \<Rightarrow> adjacency" where
  "build_adjacency E geometries =
     (let n = length geometries in
      fold (\<lambda>i adj. fold (edge_step E geometries i) [i + 1 ..< n] adj) [0 ..< n] [])"

text \<open>
  The \<^verbatim>\<open>while queue\<close> loop. \<^verbatim>\<open>queue.pop(0)\<close> takes the head; a node already visited is
  skipped; otherwise it is marked and appended to the group, and its neighbours that are
  not visited are queued.
\<close>

function bfs :: "adjacency \<Rightarrow> nat list \<Rightarrow> nat set \<Rightarrow> nat list \<Rightarrow> nat set \<times> nat list" where
  "bfs adj [] visited grp = (visited, grp)"
| "bfs adj (node # queue) visited grp =
     (if node \<in> visited then bfs adj queue visited grp
      else bfs adj (queue @ filter (\<lambda>neighbor. neighbor \<notin> insert node visited) (neighbours adj node))
             (insert node visited) (grp @ [node]))"
  by pat_completeness auto

termination
proof (relation "measures [\<lambda>(adj, queue, visited, grp). card ((\<Union>(set ` snd ` set adj) \<union> set queue) - visited),
                            \<lambda>(adj, queue, visited, grp). length queue]", goal_cases)
  case 1
  show ?case by simp
next
  case (2 adj node queue visited grp)
  then have "(\<Union>(set ` snd ` set adj) \<union> set (node # queue)) - visited
           = (\<Union>(set ` snd ` set adj) \<union> set queue) - visited"
    by auto
  then show ?case by simp
next
  case (3 adj node queue visited grp)
  let ?N = "\<Union>(set ` snd ` set adj)"
  let ?new = "filter (\<lambda>neighbor. neighbor \<notin> insert node visited) (neighbours adj node)"
  have nb: "set (neighbours adj node) \<subseteq> ?N"
  proof (cases "map_of adj node")
    case None
    then show ?thesis by (simp add: neighbours_def)
  next
    case (Some s)
    then have "(node, s) \<in> set adj" by (rule map_of_SomeD)
    then have "set s \<subseteq> ?N" by force
    with Some show ?thesis by (simp add: neighbours_def)
  qed
  have sub: "(?N \<union> set (queue @ ?new)) - insert node visited
           \<subseteq> (?N \<union> set (node # queue)) - visited"
    using nb by auto
  have "node \<in> (?N \<union> set (node # queue)) - visited" using 3 by simp
  moreover have "node \<notin> (?N \<union> set (queue @ ?new)) - insert node visited" by simp
  ultimately have "(?N \<union> set (queue @ ?new)) - insert node visited
           \<subset> (?N \<union> set (node # queue)) - visited"
    using sub by blast
  moreover have "finite ((?N \<union> set (node # queue)) - visited)" by simp
  ultimately have "card ((?N \<union> set (queue @ ?new)) - insert node visited)
           < card ((?N \<union> set (node # queue)) - visited)"
    by (rule psubset_card_mono [rotated])
  then show ?case by simp
qed

text \<open>The body of \<^verbatim>\<open>for start in range(n)\<close>, on the pair of \<^verbatim>\<open>visited\<close> and \<^verbatim>\<open>groups\<close>.\<close>

definition component_step :: "adjacency \<Rightarrow> nat \<Rightarrow> nat set \<times> nat list list \<Rightarrow> nat set \<times> nat list list" where
  "component_step adj start st =
     (case st of (visited, groups) \<Rightarrow>
        if start \<in> visited then (visited, groups)
        else (case bfs adj [start] visited [] of
                (visited', grp) \<Rightarrow> (visited', groups @ [grp])))"

definition connected_groups :: "nat \<Rightarrow> adjacency \<Rightarrow> nat list list" where
  "connected_groups n adj = snd (fold (component_step adj) [0 ..< n] ({}, []))"

text \<open>
  Python does not fix the order in which \<^verbatim>\<open>for neighbor in adjacent[node]\<close> walks a set.
  The parameter \<open>ord\<close> is that order: it rearranges each neighbour set once the
  dictionary is built (the sets do not change afterwards).
\<close>

definition iteration_order :: "(nat list \<Rightarrow> nat list) \<Rightarrow> adjacency \<Rightarrow> adjacency" where
  "iteration_order ord adj = map (\<lambda>(k, s). (k, ord s)) adj"

definition find_adjacent_groups :: "'g engine \<Rightarrow> (nat list \<Rightarrow> nat list) \<Rightarrow> 'g list \<Rightarrow> nat list list" where
  "find_adjacent_groups E ord geometries =
     (let n = length geometries in
      if n \<le> 1 then map (\<lambda>i. [i]) [0 ..< n]
      else connected_groups n (iteration_order ord (build_adjacency E geometries)))"

section \<open>The orchestration: \<^verbatim>\<open>merge_parcels\<close>\<close>

text \<open>\<^verbatim>\<open>owner_groups[key].append(f)\<close> on a \<^verbatim>\<open>defaultdict(list)\<close>: a new key goes last.\<close>

definition group_add :: "string \<Rightarrow> feature \<Rightarrow> (string \<times> feature list) list \<Rightarrow> (string \<times> feature list) list" where
  "group_add key f owner_groups =
     (case map_of owner_groups key of
        None \<Rightarrow> owner_groups @ [(key, [f])]
      | Some fs \<Rightarrow> AList.update key (fs @ [f]) owner_groups)"

text \<open>\<^verbatim>\<open>get_owner_key(f.get('properties', {}))\<close>.\<close>

definition feature_key :: "feature \<Rightarrow> py_error + string option" where
  "feature_key f =
     get_owner_key (case map_of f ''properties'' of None \<Rightarrow> PDict [] | Some p \<Rightarrow> p)"

text \<open>The grouping loop; \<^verbatim>\<open>if key:\<close> is false for \<^verbatim>\<open>None\<close> and for an empty string.\<close>

fun group_by_owner ::
  "feature list \<Rightarrow> (string \<times> feature list) list \<times> feature list
     \<Rightarrow> py_error + (string \<times> feature list) list \<times> feature list" where
  "group_by_owner [] st = Inr st"
| "group_by_owner (f # fs) (owner_groups, no_owner) =
     (case feature_key f of
        Inl e \<Rightarrow> Inl e
      | Inr None \<Rightarrow> group_by_owner fs (owner_groups, no_owner @ [f])
      | Inr (Some key) \<Rightarrow>
          if key \<noteq> [] then group_by_owner fs (group_add key f owner_groups, no_owner)
          else group_by_owner fs (owner_groups, no_owner @ [f]))"

text \<open>
  The loop over \<^verbatim>\<open>adjacent_groups\<close>. Every index of a group is below the number of valid
  geometries (lemma \<open>find_adjacent_groups_bound\<close>), so the two list reads are in range.
\<close>

fun merge_components ::
  "'g engine \<Rightarrow> (string \<Rightarrow> real option) \<Rightarrow> feature list \<Rightarrow> nat list \<Rightarrow> nat list list
     \<Rightarrow> feature list \<Rightarrow> py_error + feature list" where
  "merge_components E sf owner_features valid_indices [] merged_features = Inr merged_features"
| "merge_components E sf owner_features valid_indices (group_indices # rest) merged_features =
     (let original_indices = map (\<lambda>i. valid_indices ! i) group_indices;
          group_features = map (\<lambda>i. owner_features ! i) original_indices
      in if length group_features > 1 then
           (case merge_features E sf group_features of
              Inl e \<Rightarrow> Inl e
            | Inr merged \<Rightarrow>
                merge_components E sf owner_features valid_indices rest (merged_features @ [merged]))
         else
           (case group_features of
              [] \<Rightarrow> Inl IndexError
            | g # _ \<Rightarrow>
                merge_components E sf owner_features valid_indices rest (merged_features @ [g])))"

text \<open>The body of the loop over \<^verbatim>\<open>owner_groups.items()\<close>.\<close>

definition merge_group ::
  "'g engine \<Rightarrow> (string \<Rightarrow> real option) \<Rightarrow> (nat list \<Rightarrow> nat list) \<Rightarrow> feature list
     \<Rightarrow> feature list \<Rightarrow> py_error + feature list" where
  "merge_group E sf ord owner_features merged_features =
     (case owner_features of
        [f] \<Rightarrow> Inr (merged_features @ [f])
      | _ \<Rightarrow>
         (let geometries = map (parse_geom E) owner_features;
              valid_indices = filter (\<lambda>i. geometries ! i \<noteq> None) [0 ..< length geometries];
              valid_geoms = map (\<lambda>i. the (geometries ! i)) valid_indices
          in if length valid_geoms \<le> 1 then Inr (merged_features @ owner_features)
             else merge_components E sf owner_features valid_indices
                    (find_adjacent_groups E ord valid_geoms) merged_features))"

fun merge_groups ::
  "'g engine \<Rightarrow> (string \<Rightarrow> real option) \<Rightarrow> (nat list \<Rightarrow> nat list) \<Rightarrow> (string \<times> feature list) list
     \<Rightarrow> feature list \<Rightarrow> py_error + feature list" where
  "merge_groups E sf ord [] merged_features = Inr merged_features"
| "merge_groups E sf ord ((owner_key, owner_features) # rest) merged_features =
     (case merge_group E sf ord owner_features merged_features of
        Inl e \<Rightarrow> Inl e
      | Inr merged_features' \<Rightarrow> merge_groups E sf ord rest merged_features')"

text \<open>
  \<^verbatim>\<open>merge_parcels\<close>, from the list \<^verbatim>\<open>input_data.get('features', [])\<close> to the list of
  features of the returned collection.
\<close>

definition merge_parcels ::
  "'g engine \<Rightarrow> (string \<Rightarrow> real option) \<Rightarrow> (nat list \<Rightarrow> nat list) \<Rightarrow> feature list
     \<Rightarrow> py_error + feature list" where
  "merge_parcels E sf ord features =
     (case group_by_owner features ([], []) of
        Inl e \<Rightarrow> Inl e
      | Inr (owner_groups, no_owner) \<Rightarrow>
         (case merge_groups E sf ord owner_groups [] of
            Inl e \<Rightarrow> Inl e
          | Inr merged_features \<Rightarrow> Inr (merged_features @ no_owner)))"

section \<open>The bulk transforms of \<^verbatim>\<open>geo_utils\<close>\<close>

text \<open>
  A GeoDataFrame is a mutable object: the caller and the callee hold references into a
  store of frames, and an assignment \<^verbatim>\<open>gdf['geometry'] = ...\<close> updates the frame the
  reference points to. A frame is its coordinate system and its rows; a row is a
  geometry (or a missing one) and its attribute columns.
\<close>

record 'g gdf_row =
  geom :: "'g option"
  attrs :: pydict

record 'g gdf =
  crs :: string
  rows :: "'g gdf_row list"

type_synonym 'g store = "'g gdf list"

text \<open>A new frame object gets the next free reference.\<close>

definition alloc :: "'g store \<Rightarrow> 'g gdf \<Rightarrow> 'g store \<times> nat" where
  "alloc h x = (h @ [x], length h)"

text \<open>The operations of GeoPandas and Shapely that the transforms call.\<close>

record 'g frame_ops =
  is_empty :: "'g \<Rightarrow> bool"
  simplify :: "real \<Rightarrow> bool \<Rightarrow> 'g \<Rightarrow> 'g"
  to_crs :: "string \<Rightarrow> string \<Rightarrow> 'g \<Rightarrow> 'g"
  geom_type :: "'g \<Rightarrow> string"
  area :: "'g \<Rightarrow> real"
  length_of :: "'g \<Rightarrow> real"
  clip :: "'g gdf \<Rightarrow> 'g \<Rightarrow> 'g gdf"


text \<open>\<^verbatim>\<open>gdf.is_valid\<close> of a row: a missing geometry is not valid.\<close>

definition row_valid :: "'g engine \<Rightarrow> 'g gdf_row \<Rightarrow> bool" where
  "row_valid E r = (case geom r of None \<Rightarrow> False | Some g \<Rightarrow> is_valid E g)"

text \<open>
  \<^verbatim>\<open>lambda geom: make_valid(geom) if geom and not geom.is_valid else geom\<close>; a missing
  or an empty geometry is false. The outer \<open>None\<close> is an exception of \<^verbatim>\<open>make_valid\<close>,
  which nothing catches here.
\<close>

definition fix_row :: "'g engine \<Rightarrow> 'g frame_ops \<Rightarrow> 'g gdf_row \<Rightarrow> 'g gdf_row option" where
  "fix_row E F r =
     (case geom r of
        None \<Rightarrow> Some r
      | Some g \<Rightarrow>
          if \<not> is_empty F g \<and> \<not> is_valid E g
          then (case make_valid E g of None \<Rightarrow> None | Some g' \<Rightarrow> Some (r\<lparr>geom := Some g'\<rparr>))
          else Some r)"

fun fix_rows :: "'g engine \<Rightarrow> 'g frame_ops \<Rightarrow> 'g gdf_row list \<Rightarrow> 'g gdf_row list option" where
  "fix_rows E F [] = Some []"
| "fix_rows E F (r # rs) =
     (case fix_row E F r of
        None \<Rightarrow> None
      | Some r' \<Rightarrow> (case fix_rows E F rs of None \<Rightarrow> None | Some rs' \<Rightarrow> Some (r' # rs')))"

text \<open>
  \<^verbatim>\<open>validate_geometries(gdf, fix)\<close>: the store and the reference \<open>ref\<close> of the argument go
  in, the new store and the returned reference come out. The filtered copy is a new frame.
\<close>

definition validate_geometries ::
  "'g engine \<Rightarrow> 'g frame_ops \<Rightarrow> bool \<Rightarrow> 'g store \<Rightarrow> nat \<Rightarrow> ('g store \<times> nat) option" where
  "validate_geometries E F fix h ref =
     (let gdf = h ! ref in
      if list_all (row_valid E) (rows gdf) then Some (h, ref)
      else if fix then
        (case fix_rows E F (rows gdf) of
           None \<Rightarrow> None
         | Some rs \<Rightarrow>
             (let h1 = h[ref := gdf\<lparr>rows := rs\<rparr>] in
              if \<not> list_all (row_valid E) rs
              then Some (alloc h1 ((h1 ! ref)\<lparr>rows := filter (row_valid E) rs\<rparr>))
              else Some (h1, ref)))
      else Some (h, ref))"






section \<open>Property dictionaries as objects\<close>




section \<open>A small engine for the worked examples\<close>

text \<open>
  A geometry is a list of unit cells on a line, written in GeoJSON as a list of integers.
  Two geometries touch when they share no cell and a cell of one is next to a cell of the
  other; they intersect when they share a cell or touch. Repair removes repeated cells.
\<close>

fun cell_of :: "pyval \<Rightarrow> int option" where
  "cell_of (PInt i) = Some i"
| "cell_of _ = None"

definition cells_shape :: "pyval \<Rightarrow> int list option" where
  "cells_shape j =
     (case j of
        PList xs \<Rightarrow> if list_all (\<lambda>x. cell_of x \<noteq> None) xs then Some (map (\<lambda>x. the (cell_of x)) xs) else None
      | _ \<Rightarrow> None)"

definition cells_near :: "int list \<Rightarrow> int list \<Rightarrow> bool" where
  "cells_near a b = list_ex (\<lambda>x. list_ex (\<lambda>y. \<bar>x - y\<bar> = 1) b) a"

definition cells_overlap :: "int list \<Rightarrow> int list \<Rightarrow> bool" where
  "cells_overlap a b = list_ex (\<lambda>x. x \<in> set b) a"

definition cells_engine :: "int list engine" where
  "cells_engine =
     \<lparr>shape = cells_shape,
      is_valid = distinct,
      make_valid = (\<lambda>g. Some (remdups g)),
      touches = (\<lambda>a b. Some (cells_near a b \<and> \<not> cells_overlap a b)),
      intersects = (\<lambda>a b. Some (cells_near a b \<or> cells_overlap a b)),
      unary_union = (\<lambda>gs. Some (remdups (concat gs))),
      mapping = (\<lambda>g. PList (map PInt g))\<rparr>"

definition cells_ops :: "int list frame_ops" where
  "cells_ops =
     \<lparr>is_empty = (\<lambda>g. g = []),
      simplify = (\<lambda>tolerance preserve_topology g. remdups g),
      to_crs = (\<lambda>src dst g. g),
      geom_type = (\<lambda>g. ''Polygon''),
      area = (\<lambda>g. real (length (remdups g))),
      length_of = (\<lambda>g. real (length (remdups g))),
      clip = (\<lambda>gdf mask. gdf\<lparr>rows := filter (\<lambda>r. case geom r of None \<Rightarrow> False | Some g \<Rightarrow> cells_overlap g mask) (rows gdf)\<rparr>)\<rparr>"

text \<open>No string converts to a number.\<close>

definition no_str_float :: "string \<Rightarrow> real option" where
  "no_str_float s = None"

text \<open>A parcel of the examples: its cells, its owner, its acreage under \<^verbatim>\<open>gisacres\<close>.\<close>

definition parcel :: "int list \<Rightarrow> string \<Rightarrow> pyval \<Rightarrow> feature" where
  "parcel cells owner acres =
     [(''type'', PStr ''Feature''),
      (''geometry'', PList (map PInt cells)),
      (''properties'', PDict [(''ownername'', PStr owner), (''gisacres'', acres)])]"

text \<open>A parcel whose geometry is \<^verbatim>\<open>null\<close>, so that its conversion raises.\<close>

definition parcel_null_geometry :: "string \<Rightarrow> feature" where
  "parcel_null_geometry owner =
     [(''type'', PStr ''Feature''),
      (''geometry'', PNone),
      (''properties'', PDict [(''ownername'', PStr owner)])]"

section \<open>Notions of the specification\<close>


text \<open>The edge relation of an adjacency dictionary: \<open>b\<close> is in the set stored for \<open>a\<close>.\<close>

definition edges_of :: "adjacency \<Rightarrow> (nat \<times> nat) set" where
  "edges_of adj = {(a, b). b \<in> set (neighbours adj a)}"










section \<open>Aggregation of the numeric fields\<close>
















section \<open>Repair\<close>

text \<open>
  Claim C7. A valid geometry passes through repair unchanged, in the merge (\<open>repair\<close>) and
  in the row function of the bulk transform (\<open>fix_row\<close>); repairing the result again
  gives the same geometry. A frame whose rows are all valid is returned by
  \<^verbatim>\<open>validate_geometries\<close> as the same object with the store untouched, also when the
  call is repeated on its result.
\<close>

theorem repair_valid_unchanged:
  assumes "is_valid E g"
  shows "repair E g = Some g
     \<and> Option.bind (repair E g) (repair E) = Some g
     \<and> fix_row E F \<lparr>geom = Some g, attrs = a\<rparr> = Some \<lparr>geom = Some g, attrs = a\<rparr>
     \<and> (\<forall>h ref fix. list_all (row_valid E) (rows (h ! ref)) \<longrightarrow>
           validate_geometries E F fix h ref = Some (h, ref)
         \<and> Option.bind (validate_geometries E F fix h ref) (\<lambda>(h', ref'). validate_geometries E F fix h' ref')
             = Some (h, ref))"
  using assms by (simp add: repair_def fix_row_def validate_geometries_def)

text \<open>The two cells 0 and 1 form a valid geometry of the example engine.\<close>

theorem repair_valid_unchanged_witness:
  "is_valid cells_engine [0, 1]
   \<and> repair cells_engine [0, 1] = Some [0, 1]
   \<and> Option.bind (repair cells_engine [0, 1]) (repair cells_engine) = Some [0, 1]
   \<and> validate_geometries cells_engine cells_ops True [\<lparr>crs = ''EPSG:4326'', rows = [\<lparr>geom = Some [0, 1], attrs = []\<rparr>]\<rparr>] 0
       = Some ([\<lparr>crs = ''EPSG:4326'', rows = [\<lparr>geom = Some [0, 1], attrs = []\<rparr>]\<rparr>], 0)"
proof -
  have h: "is_valid cells_engine [0, 1]" by (simp add: cells_engine_def)
  have v: "list_all (row_valid cells_engine)
     (rows ([\<lparr>crs = ''EPSG:4326'', rows = [\<lparr>geom = Some [0, 1], attrs = []\<rparr>]\<rparr>] ! 0))"
    by (simp add: row_valid_def cells_engine_def)
  note T = repair_valid_unchanged [OF h, of cells_ops "[]"]
  from T have a: "repair cells_engine [0, 1] = Some [0, 1]" by blast
  from T have b: "Option.bind (repair cells_engine [0, 1]) (repair cells_engine) = Some [0, 1]" by blast
  from T v have c: "validate_geometries cells_engine cells_ops True [\<lparr>crs = ''EPSG:4326'', rows = [\<lparr>geom = Some [0, 1], attrs = []\<rparr>]\<rparr>] 0
       = Some ([\<lparr>crs = ''EPSG:4326'', rows = [\<lparr>geom = Some [0, 1], attrs = []\<rparr>]\<rparr>], 0)" by blast
  from h a b c show ?thesis by blast
qed

section \<open>Converted geometries\<close>


section \<open>The adjacency dictionary\<close>

lemma neighbours_update:
  "neighbours (AList.update i s adj) k = (if k = i then s else neighbours adj k)"
  by (simp add: neighbours_def update_conv')

lemma edges_of_adj_add: "edges_of (adj_add i j adj) = insert (i, j) (edges_of adj)"
  by (auto simp: edges_of_def adj_add_def neighbours_update set_add_def split: if_splits)

lemma edges_of_edge_step:
  "edges_of (edge_step E gs i j adj) =
     edges_of adj \<union> (if adj_test E (gs ! i) (gs ! j) = Some True then {(i, j), (j, i)} else {})"
  by (auto simp: edge_step_def edges_of_adj_add split: option.splits bool.splits)

lemma edges_of_inner:
  "edges_of (fold (edge_step E gs i) js adj) =
     edges_of adj \<union> {(a, b). \<exists>j \<in> set js. adj_test E (gs ! i) (gs ! j) = Some True \<and> ((a, b) = (i, j) \<or> (a, b) = (j, i))}"
proof (induction js arbitrary: adj)
  case Nil
  then show ?case by simp
next
  case (Cons j js)
  show ?case
    unfolding fold_simps Cons.IH edges_of_edge_step by auto
qed

lemma edges_of_outer:
  "edges_of (fold (\<lambda>i adj. fold (edge_step E gs i) [i + 1 ..< n] adj) is adj) =
     edges_of adj \<union> {(a, b). \<exists>i \<in> set is. \<exists>j \<in> {i + 1 ..< n}.
         adj_test E (gs ! i) (gs ! j) = Some True \<and> ((a, b) = (i, j) \<or> (a, b) = (j, i))}"
proof (induction "is" arbitrary: adj)
  case Nil
  then show ?case by simp
next
  case (Cons i "is")
  show ?case
    unfolding fold_simps Cons.IH edges_of_inner by auto
qed

lemma edges_of_empty: "edges_of [] = {}"
  by (simp add: edges_of_def neighbours_def)

lemma edges_of_build_adjacency:
  "edges_of (build_adjacency E gs) =
     {(a, b). \<exists>i j. i < j \<and> j < length gs \<and> adj_test E (gs ! i) (gs ! j) = Some True
                 \<and> ((a, b) = (i, j) \<or> (a, b) = (j, i))}"
proof -
  have ex: "(\<exists>i \<in> set [0 ..< n]. \<exists>j \<in> {i + 1 ..< n}. P i j) \<longleftrightarrow> (\<exists>i j. i < j \<and> j < n \<and> P i j)"
    for n :: nat and P
  proof
    assume "\<exists>i \<in> set [0 ..< n]. \<exists>j \<in> {i + 1 ..< n}. P i j"
    then obtain i j where "i < j" "j < n" "P i j" by (auto simp: Suc_le_eq)
    then show "\<exists>i j. i < j \<and> j < n \<and> P i j" by blast
  next
    assume "\<exists>i j. i < j \<and> j < n \<and> P i j"
    then obtain i j where ij: "i < j" "j < n" "P i j" by blast
    then have "i \<in> set [0 ..< n]" "j \<in> {i + 1 ..< n}" by auto
    with ij(3) show "\<exists>i \<in> set [0 ..< n]. \<exists>j \<in> {i + 1 ..< n}. P i j" by blast
  qed
  show ?thesis
    unfolding build_adjacency_def Let_def edges_of_outer edges_of_empty ex by simp
qed

lemma in_edges_of: "(a, b) \<in> edges_of adj \<longleftrightarrow> b \<in> set (neighbours adj a)"
  by (simp add: edges_of_def)

text \<open>
  Claim C4. For every pair \<open>i < j\<close> of positions, \<open>j\<close> is a neighbour of \<open>i\<close> exactly when
  the guarded test returns true, that is when \<^verbatim>\<open>touches\<close> returns true, or returns false
  and \<^verbatim>\<open>intersects\<close> returns true. A test that raises leaves no edge in either
  direction. The neighbour sets are symmetric, lie below the number of geometries and have
  no loop. The dictionary is a value for every input: no exception of a test reaches the
  caller.
\<close>

theorem adjacency_edges:
  "(\<forall>i j. i < j \<and> j < length gs \<longrightarrow>
      (j \<in> set (neighbours (build_adjacency E gs) i)
         \<longleftrightarrow> adj_test E (gs ! i) (gs ! j) = Some True)
      \<and> (adj_test E (gs ! i) (gs ! j) = Some True
         \<longleftrightarrow> touches E (gs ! i) (gs ! j) = Some True
             \<or> (touches E (gs ! i) (gs ! j) = Some False \<and> intersects E (gs ! i) (gs ! j) = Some True))
      \<and> (adj_test E (gs ! i) (gs ! j) = None
         \<longrightarrow> j \<notin> set (neighbours (build_adjacency E gs) i)
           \<and> i \<notin> set (neighbours (build_adjacency E gs) j)))
   \<and> (\<forall>a b. b \<in> set (neighbours (build_adjacency E gs) a)
         \<longleftrightarrow> a \<in> set (neighbours (build_adjacency E gs) b))
   \<and> (\<forall>a b. b \<in> set (neighbours (build_adjacency E gs) a) \<longrightarrow> a < length gs \<and> b < length gs \<and> a \<noteq> b)"
proof -
  have t: "adj_test E x y = Some True
         \<longleftrightarrow> touches E x y = Some True \<or> (touches E x y = Some False \<and> intersects E x y = Some True)" for x y
    by (auto simp: adj_test_def split: option.splits bool.splits)
  have e: "b \<in> set (neighbours (build_adjacency E gs) a) \<longleftrightarrow>
      (\<exists>i j. i < j \<and> j < length gs \<and> adj_test E (gs ! i) (gs ! j) = Some True
                 \<and> ((a, b) = (i, j) \<or> (a, b) = (j, i)))" for a b
    using edges_of_build_adjacency [of E gs] by (auto simp: in_edges_of [symmetric])
  have n: "adj_test E x y = None \<Longrightarrow> adj_test E x y \<noteq> Some True" for x y
    by simp
  have p1: "j \<in> set (neighbours (build_adjacency E gs) i) \<longleftrightarrow> adj_test E (gs ! i) (gs ! j) = Some True"
    if "i < j \<and> j < length gs" for i j
    using that unfolding e by auto
  have p1': "i \<in> set (neighbours (build_adjacency E gs) j) \<longleftrightarrow> adj_test E (gs ! i) (gs ! j) = Some True"
    if "i < j \<and> j < length gs" for i j
    using that unfolding e by auto
  have p2: "b \<in> set (neighbours (build_adjacency E gs) a) \<longleftrightarrow> a \<in> set (neighbours (build_adjacency E gs) b)" for a b
    unfolding e by auto
  have p3: "a < length gs \<and> b < length gs \<and> a \<noteq> b" if "b \<in> set (neighbours (build_adjacency E gs) a)" for a b
    using that unfolding e by auto
  have c1: "\<forall>i j. i < j \<and> j < length gs \<longrightarrow>
      (j \<in> set (neighbours (build_adjacency E gs) i)
         \<longleftrightarrow> adj_test E (gs ! i) (gs ! j) = Some True)
      \<and> (adj_test E (gs ! i) (gs ! j) = Some True
         \<longleftrightarrow> touches E (gs ! i) (gs ! j) = Some True
             \<or> (touches E (gs ! i) (gs ! j) = Some False \<and> intersects E (gs ! i) (gs ! j) = Some True))
      \<and> (adj_test E (gs ! i) (gs ! j) = None
         \<longrightarrow> j \<notin> set (neighbours (build_adjacency E gs) i)
           \<and> i \<notin> set (neighbours (build_adjacency E gs) j))"
    using p1 p1' t n by blast
  have c2: "\<forall>a b. b \<in> set (neighbours (build_adjacency E gs) a)
         \<longleftrightarrow> a \<in> set (neighbours (build_adjacency E gs) b)"
    using p2 by blast
  have c3: "\<forall>a b. b \<in> set (neighbours (build_adjacency E gs) a) \<longrightarrow> a < length gs \<and> b < length gs \<and> a \<noteq> b"
    using p3 by blast
  from c1 c2 c3 show ?thesis by blast
qed


text \<open>
  Three geometries under an engine whose \<^verbatim>\<open>intersects\<close> always raises: cells 0 and 1
  touch and are joined; for cells 0 and 5 \<^verbatim>\<open>touches\<close> is false, \<^verbatim>\<open>intersects\<close> raises and
  there is no edge.
\<close>

theorem adjacency_edges_witness:
  "adj_test (cells_engine\<lparr>intersects := \<lambda>a b. None\<rparr>) ([[0], [1], [5]] ! 0) ([[0], [1], [5]] ! 1) = Some True
   \<and> 1 \<in> set (neighbours (build_adjacency (cells_engine\<lparr>intersects := \<lambda>a b. None\<rparr>) [[0], [1], [5]]) 0)
   \<and> 0 \<in> set (neighbours (build_adjacency (cells_engine\<lparr>intersects := \<lambda>a b. None\<rparr>) [[0], [1], [5]]) 1)
   \<and> adj_test (cells_engine\<lparr>intersects := \<lambda>a b. None\<rparr>) ([[0], [1], [5]] ! 0) ([[0], [1], [5]] ! 2) = None
   \<and> 2 \<notin> set (neighbours (build_adjacency (cells_engine\<lparr>intersects := \<lambda>a b. None\<rparr>) [[0], [1], [5]]) 0)
   \<and> 0 \<notin> set (neighbours (build_adjacency (cells_engine\<lparr>intersects := \<lambda>a b. None\<rparr>) [[0], [1], [5]]) 2)"
proof -
  let ?E = "cells_engine\<lparr>intersects := \<lambda>a b. None\<rparr>"
  let ?gs = "[[0], [1], [5 :: int]]"
  note T = adjacency_edges [of ?gs ?E]
  have r1: "(0::nat) < 1 \<and> 1 < length ?gs" by simp
  have r2: "(0::nat) < 2 \<and> 2 < length ?gs" by simp
  have t1: "adj_test ?E (?gs ! 0) (?gs ! 1) = Some True"
    by (simp add: adj_test_def cells_engine_def cells_near_def cells_overlap_def)
  have t2: "adj_test ?E (?gs ! 0) (?gs ! 2) = None"
    by (simp add: adj_test_def cells_engine_def cells_near_def cells_overlap_def)
  from T r1 t1 have a: "1 \<in> set (neighbours (build_adjacency ?E ?gs) 0)" by blast
  with T have b: "0 \<in> set (neighbours (build_adjacency ?E ?gs) 1)" by blast
  from T r2 t2 have c: "2 \<notin> set (neighbours (build_adjacency ?E ?gs) 0)
      \<and> 0 \<notin> set (neighbours (build_adjacency ?E ?gs) 2)" by blast
  from t1 a b t2 c show ?thesis by blast
qed


section \<open>Owner groups with at most one geometry\<close>

lemma length_filter_index:
  "length (filter (\<lambda>i. P (xs ! i)) [0 ..< length xs]) = length (filter P xs)"
proof (induction xs rule: rev_induct)
  case Nil
  then show ?case by simp
next
  case (snoc x xs)
  have "filter (\<lambda>i. P ((xs @ [x]) ! i)) [0 ..< length xs] = filter (\<lambda>i. P (xs ! i)) [0 ..< length xs]"
    by (rule filter_cong) (auto simp: nth_append)
  with snoc show ?case by simp
qed

text \<open>
  Claim C9. For an owner group of two or more features of which at most one has a geometry
  that converts, the loop body appends the features of the group to the output as they
  are, in their order.
\<close>

theorem unparsed_group_passes_through:
  assumes "2 \<le> length owner_features"
    and "length (filter (\<lambda>f. parse_geom E f \<noteq> None) owner_features) \<le> 1"
  shows "merge_group E sf ord owner_features merged_features = Inr (merged_features @ owner_features)"
proof -
  let ?geoms = "map (parse_geom E) owner_features"
  have "length (filter (\<lambda>i. ?geoms ! i \<noteq> None) [0 ..< length ?geoms]) = length (filter (\<lambda>g. g \<noteq> None) ?geoms)"
    by (rule length_filter_index)
  also have "\<dots> = length (filter (\<lambda>f. parse_geom E f \<noteq> None) owner_features)"
    by (simp add: filter_map comp_def)
  finally have "length (filter (\<lambda>i. ?geoms ! i \<noteq> None) [0 ..< length ?geoms]) \<le> 1"
    using assms(2) by simp
  then show ?thesis
    using assms(1) by (auto simp: merge_group_def Let_def split: list.splits)
qed

text \<open>One parcel with a geometry and two with \<^verbatim>\<open>null\<close>.\<close>

theorem unparsed_group_passes_through_witness:
  "merge_group cells_engine no_str_float id
     [parcel [0] ''A'' (PInt 1), parcel_null_geometry ''A'', parcel_null_geometry ''A''] []
   = Inr [parcel [0] ''A'' (PInt 1), parcel_null_geometry ''A'', parcel_null_geometry ''A'']"
proof -
  let ?fs = "[parcel [0] ''A'' (PInt 1), parcel_null_geometry ''A'', parcel_null_geometry ''A'']"
  have h1: "2 \<le> length ?fs" by simp
  have h2: "length (filter (\<lambda>f. parse_geom cells_engine f \<noteq> None) ?fs) \<le> 1"
    by (simp add: parse_geom_def parcel_def parcel_null_geometry_def cells_engine_def
        cells_shape_def repair_def)
  show ?thesis
    using unparsed_group_passes_through [OF h1 h2, of no_str_float id "[]"] by simp
qed

section \<open>Features whose geometry does not convert\<close>

text \<open>
  Claim C2, evaluated. One owner with two adjacent parcels and a third whose geometry is
  \<^verbatim>\<open>null\<close>: two geometries convert, so the component search runs over them only; the
  output is the single merged feature, and the third parcel is not in the output.
\<close>

theorem unparsed_feature_dropped:
  "merge_parcels cells_engine no_str_float id
     [parcel [0] ''A'' (PInt 1), parcel [1] ''A'' (PInt 2), parcel_null_geometry ''A'']
   = Inr [[(''type'', PStr ''Feature''),
           (''geometry'', PList [PInt 0, PInt 1]),
           (''properties'', PDict [(''ownername'', PStr ''A''), (''gisacres'', PFloat 3),
                                   (''_merged_count'', PInt 2),
                                   (''_merged_parcels'', PList [PNone, PNone])])]]"
  by code_simp

section \<open>The component search\<close>

subsection \<open>The inner loop\<close>





subsection \<open>The loop over the start indices\<close>







subsection \<open>Partitions into components\<close>










subsection \<open>The groups of one owner\<close>





lemma valid_indices_bound:
  "k \<in> set (filter (\<lambda>i. gs ! i \<noteq> None) [0 ..< length gs]) \<Longrightarrow> k < length gs"
  by simp










section \<open>The output of \<^verbatim>\<open>merge_parcels\<close>\<close>

subsection \<open>The accumulator of the group loop\<close>





subsection \<open>The union and its fallback\<close>



subsection \<open>The grouping loop\<close>












subsection \<open>Features without owner\<close>









section \<open>Which objects a call changes\<close>














end
